theory Spec2Isabelle
  imports Main "HOL-Library.Word"
begin

unbundle bit_operations_syntax

section \<open>The JSON serializer (JsonSerializer.cpp)\<close>

text \<open>
  The two ways an operation of the library can fail. A data error is an exception raised
  through \<open>throwException\<close>; a programming error is a failed \<open>assert\<close>, which aborts
  the program. Assertions are modelled as compiled in (a build without \<open>NDEBUG\<close>).
\<close>

datatype error =
    SerializerException string
  | DeserializerException string
  | AssertionFailure

fun is_data_error :: "error \<Rightarrow> bool" where
  "is_data_error (SerializerException m) = True"
| "is_data_error (DeserializerException m) = True"
| "is_data_error AssertionFailure = False"

text \<open>
  The members of \<open>JsonSerializer\<close>. The output stream \<open>m_out\<close> is the text written to
  it so far; the stream is taken to be in its default formatting state and never to fail.
  The member declarations are in \<open>JsonSerializer.hpp\<close>, which is not among the
  sources. \<open>m_depth\<close> is kept as an unbounded integer: nothing about its sign is built
  into the type, and no wrap-around of the counter is modelled.
\<close>

record JsonSerializer =
  m_out :: string
  m_pretty :: bool
  m_hasValue :: bool
  m_arrayJustOpen :: bool
  m_depth :: int

text \<open>
  Modelled from the spec: the default member initialisers of \<open>JsonSerializer.hpp\<close>
  (no value emitted yet, no array just opened, nesting depth zero). The constructor itself
  only binds the stream and the pretty flag.
\<close>

definition JsonSerializer_ctor :: "bool \<Rightarrow> JsonSerializer" where
  "JsonSerializer_ctor pretty =
     \<lparr>m_out = [], m_pretty = pretty, m_hasValue = False, m_arrayJustOpen = False, m_depth = 0\<rparr>"

text \<open>\<open>~JsonSerializer\<close>: \<open>assert(m_depth == 0)\<close>.\<close>

definition JsonSerializer_dtor :: "JsonSerializer \<Rightarrow> error + unit" where
  "JsonSerializer_dtor s = (if m_depth s = 0 then Inr () else Inl AssertionFailure)"

text \<open>
  \<open>throwException\<close> as the source has it,
  \<open>void JsonSerializer::throwException(std::string text) const {}\<close>: the body is empty,
  nothing is thrown and the call returns to its caller.
\<close>

definition throwException :: "string \<Rightarrow> JsonSerializer \<Rightarrow> error + JsonSerializer" where
  "throwException text s = Inr s"

text \<open>
  \<open>newLine\<close>: nothing in compact mode; otherwise a line feed and the loop
  \<open>for (i = 0; i < m_depth; ++i) m_out << "  "\<close>.
\<close>

function indent_loop :: "int \<Rightarrow> int \<Rightarrow> string \<Rightarrow> string" where
  "indent_loop i depth out =
     (if i < depth then indent_loop (i + 1) depth (out @ ''  '') else out)"
  by pat_completeness auto
termination
  by (relation "measure (\<lambda>(i, depth, out). nat (depth - i))") auto

declare indent_loop.simps [simp del]

definition newLine :: "JsonSerializer \<Rightarrow> JsonSerializer" where
  "newLine s =
     (if \<not> m_pretty s then s
      else s\<lparr>m_out := indent_loop 0 (m_depth s) (m_out s @ [CHR 0x0A])\<rparr>)"

definition prepareWriteVal :: "JsonSerializer \<Rightarrow> JsonSerializer" where
  "prepareWriteVal s =
     (let s1 = (if m_hasValue s then newLine (s\<lparr>m_out := m_out s @ '',''\<rparr>)
                else if m_arrayJustOpen s then (newLine s)\<lparr>m_arrayJustOpen := False\<rparr>
                else s)
      in s1\<lparr>m_hasValue := True\<rparr>)"

text \<open>
  \<open>writeSimpleValue(val)\<close> is \<open>prepareWriteVal(); m_out << val\<close>. The argument of the
  model is the text that the stream's \<open><<\<close> produces for \<open>val\<close>.
\<close>

definition writeSimpleValue :: "string \<Rightarrow> JsonSerializer \<Rightarrow> JsonSerializer" where
  "writeSimpleValue txt s = (let s1 = prepareWriteVal s in s1\<lparr>m_out := m_out s1 @ txt\<rparr>)"

definition write_bool :: "bool \<Rightarrow> JsonSerializer \<Rightarrow> JsonSerializer" where
  "write_bool val s = writeSimpleValue (if val then ''true'' else ''false'') s"

subsection \<open>Integers\<close>

text \<open>The stream's decimal rendering of an integer.\<close>

fun digits :: "nat \<Rightarrow> string" where
  "digits n =
     (if n < 10 then [''0123456789'' ! n]
      else digits (n div 10) @ [''0123456789'' ! (n mod 10)])"

declare digits.simps [simp del]

definition show_int :: "int \<Rightarrow> string" where
  "show_int i = (if i < 0 then CHR ''-'' # digits (nat (- i)) else digits (nat i))"

text \<open>
  The value of a \<open>T\<close> whose bits are the word \<open>val\<close>: two's complement when \<open>T\<close> is
  signed.
\<close>

definition int_value :: "bool \<Rightarrow> 'a::len word \<Rightarrow> int" where
  "int_value is_signed val = (if is_signed then sint val else uint val)"

definition write_short :: "16 word \<Rightarrow> JsonSerializer \<Rightarrow> JsonSerializer" where
  "write_short val s = writeSimpleValue (show_int (sint val)) s"

definition write_unsigned_short :: "16 word \<Rightarrow> JsonSerializer \<Rightarrow> JsonSerializer" where
  "write_unsigned_short val s = writeSimpleValue (show_int (uint val)) s"

definition write_int :: "32 word \<Rightarrow> JsonSerializer \<Rightarrow> JsonSerializer" where
  "write_int val s = writeSimpleValue (show_int (sint val)) s"

definition write_unsigned_int :: "32 word \<Rightarrow> JsonSerializer \<Rightarrow> JsonSerializer" where
  "write_unsigned_int val s = writeSimpleValue (show_int (uint val)) s"

definition MAX_D :: int where
  "MAX_D = 9007199254740992"

definition MIN_D :: int where
  "MIN_D = - 9007199254740992"

text \<open>
  \<open>writePotentiallyBigIntegerValue<T>\<close>: the type \<open>T\<close> is its width (the length of the
  word, \<open>sizeof(T)\<close> being that length in bytes) and its signedness
  (\<open>std::is_signed_v<T>\<close>).
\<close>

definition writePotentiallyBigIntegerValue ::
  "bool \<Rightarrow> 'a::len word \<Rightarrow> JsonSerializer \<Rightarrow> error + JsonSerializer" where
  "writePotentiallyBigIntegerValue is_signed val s =
     (if LENGTH('a) div 8 \<le> 4 then
        Inr (writeSimpleValue (show_int (int_value is_signed val)) s)
      else if is_signed then
        (if MIN_D \<le> sint val \<and> sint val \<le> MAX_D then
           Inr (writeSimpleValue (show_int (sint val)) s)
         else throwException ''integer too big'' s)
      else
        (if uint val \<le> MAX_D then
           Inr (writeSimpleValue (show_int (uint val)) s)
         else throwException ''integer too big'' s))"

text \<open>\<open>long\<close> is 32 or 64 bits wide depending on the platform; \<open>long long\<close> is 64.\<close>

definition write_long :: "'a::len word \<Rightarrow> JsonSerializer \<Rightarrow> error + JsonSerializer" where
  "write_long val s = writePotentiallyBigIntegerValue True val s"

definition write_unsigned_long :: "'a::len word \<Rightarrow> JsonSerializer \<Rightarrow> error + JsonSerializer" where
  "write_unsigned_long val s = writePotentiallyBigIntegerValue False val s"

definition write_long_long :: "64 word \<Rightarrow> JsonSerializer \<Rightarrow> error + JsonSerializer" where
  "write_long_long val s = writePotentiallyBigIntegerValue True val s"

definition write_unsigned_long_long :: "64 word \<Rightarrow> JsonSerializer \<Rightarrow> error + JsonSerializer" where
  "write_unsigned_long_long val s = writePotentiallyBigIntegerValue False val s"

subsection \<open>Floating point\<close>

text \<open>
  A \<open>double\<close> is its IEEE-754 binary64 bit pattern, a \<open>float\<close> its binary32 one.
  \<open>std::isfinite\<close> holds unless the exponent field is all ones (the infinities and the
  NaNs). The stream's text for a floating-point value belongs to the C++ library: it is the
  parameter \<open>fmt\<close>.
\<close>

definition isfinite_double :: "64 word \<Rightarrow> bool" where
  "isfinite_double d = (drop_bit 52 d AND 0x7FF \<noteq> 0x7FF)"

definition isfinite_float :: "32 word \<Rightarrow> bool" where
  "isfinite_float f = (drop_bit 23 f AND 0xFF \<noteq> 0xFF)"

definition writeFloatValue ::
  "('f \<Rightarrow> bool) \<Rightarrow> ('f \<Rightarrow> string) \<Rightarrow> 'f \<Rightarrow> JsonSerializer \<Rightarrow> error + JsonSerializer" where
  "writeFloatValue isfinite fmt val s =
     (if isfinite val then Inr (writeSimpleValue (fmt val) s)
      else throwException ''float not finite'' s)"

definition write_float ::
  "(32 word \<Rightarrow> string) \<Rightarrow> 32 word \<Rightarrow> JsonSerializer \<Rightarrow> error + JsonSerializer" where
  "write_float fmt val s = writeFloatValue isfinite_float fmt val s"

definition write_double ::
  "(64 word \<Rightarrow> string) \<Rightarrow> 64 word \<Rightarrow> JsonSerializer \<Rightarrow> error + JsonSerializer" where
  "write_double fmt val s = writeFloatValue isfinite_double fmt val s"

subsection \<open>Strings\<close>

text \<open>
  The loop variable \<open>c\<close> of \<open>writeEscapedUTF8String\<close> has type \<open>char\<close>, whose
  signedness is implementation-defined: \<open>char_signed\<close> says whether the platform's
  \<open>char\<close> is signed. \<open>cval\<close> is the integer value the comparisons \<open>c >= ' '\<close> and
  \<open>c < 16\<close> see for the byte \<open>c\<close>.
\<close>

definition cval :: "bool \<Rightarrow> char \<Rightarrow> int" where
  "cval char_signed c =
     (if char_signed \<and> 128 \<le> (of_char c :: int) then of_char c - 256 else of_char c)"

text \<open>
  The body of the \<open>switch\<close>: the text written for one \<open>c\<close>. In the last branch
  \<open>m_out << prefix << std::hex << c << std::dec\<close> inserts a \<open>char\<close>, and the stream
  writes a \<open>char\<close> as the character itself whatever the numeric base is.
\<close>

definition escape_char :: "bool \<Rightarrow> char \<Rightarrow> string" where
  "escape_char char_signed c =
     (if c = CHR 0x22 then [CHR 0x5C, CHR 0x22]
      else if c = CHR 0x5C then [CHR 0x5C, CHR 0x5C]
      else if c = CHR 0x0A then [CHR 0x5C, CHR ''n'']
      else if c = CHR 0x0D then [CHR 0x5C, CHR ''r'']
      else if c = CHR 0x08 then [CHR 0x5C, CHR ''b'']
      else if c = CHR 0x09 then [CHR 0x5C, CHR ''t'']
      else if c = CHR 0x0C then [CHR 0x5C, CHR ''f'']
      else if 32 \<le> cval char_signed c then [c]
      else (if cval char_signed c < 16 then CHR 0x5C # ''u000'' else CHR 0x5C # ''u00'') @ [c])"

text \<open>The characters that have a case label of their own in the \<open>switch\<close>.\<close>

definition short_escaped :: "char \<Rightarrow> bool" where
  "short_escaped c =
     (c \<in> {CHR 0x22, CHR 0x5C, CHR 0x0A, CHR 0x0D, CHR 0x08, CHR 0x09, CHR 0x0C})"

fun escape_loop :: "bool \<Rightarrow> string \<Rightarrow> string \<Rightarrow> string" where
  "escape_loop char_signed [] out = out"
| "escape_loop char_signed (c # str) out =
     escape_loop char_signed str (out @ escape_char char_signed c)"

definition writeEscapedUTF8String :: "bool \<Rightarrow> string \<Rightarrow> JsonSerializer \<Rightarrow> JsonSerializer" where
  "writeEscapedUTF8String char_signed str s =
     s\<lparr>m_out := escape_loop char_signed str (m_out s @ [CHR 0x22]) @ [CHR 0x22]\<rparr>"

definition write_string :: "bool \<Rightarrow> string \<Rightarrow> JsonSerializer \<Rightarrow> JsonSerializer" where
  "write_string char_signed val s = writeEscapedUTF8String char_signed val (prepareWriteVal s)"

subsection \<open>Keys and scopes\<close>

definition pushKey :: "bool \<Rightarrow> string \<Rightarrow> JsonSerializer \<Rightarrow> JsonSerializer" where
  "pushKey char_signed k s =
     (let s1 = (if m_hasValue s then s\<lparr>m_out := m_out s @ '',''\<rparr> else s);
          s2 = newLine s1;
          s3 = writeEscapedUTF8String char_signed k s2
      in s3\<lparr>m_out := m_out s3 @ '':'', m_hasValue := False\<rparr>)"

definition writeRawJson :: "bool \<Rightarrow> string \<Rightarrow> string \<Rightarrow> JsonSerializer \<Rightarrow> JsonSerializer" where
  "writeRawJson char_signed key json s =
     (let s1 = pushKey char_signed key s
      in s1\<lparr>m_out := m_out s1 @ json, m_hasValue := True\<rparr>)"

definition open_scope :: "char \<Rightarrow> JsonSerializer \<Rightarrow> JsonSerializer" where
  "open_scope opening s =
     (let s1 = prepareWriteVal s
      in s1\<lparr>m_out := m_out s1 @ [opening], m_hasValue := False, m_depth := m_depth s1 + 1\<rparr>)"

definition close_scope :: "char \<Rightarrow> JsonSerializer \<Rightarrow> error + JsonSerializer" where
  "close_scope c s =
     (if m_depth s = 0 then Inl AssertionFailure
      else
        (let s1 = s\<lparr>m_depth := m_depth s - 1\<rparr>;
             s2 = (if m_hasValue s1 then newLine s1 else s1)
         in Inr (s2\<lparr>m_out := m_out s2 @ [c], m_hasValue := True\<rparr>)))"

definition openObject :: "JsonSerializer \<Rightarrow> JsonSerializer" where
  "openObject s = open_scope CHR ''{'' s"

definition closeObject :: "JsonSerializer \<Rightarrow> error + JsonSerializer" where
  "closeObject s = close_scope CHR ''}'' s"

definition openArray :: "JsonSerializer \<Rightarrow> JsonSerializer" where
  "openArray s = (open_scope CHR ''['' s)\<lparr>m_arrayJustOpen := True\<rparr>"

definition closeArray :: "JsonSerializer \<Rightarrow> error + JsonSerializer" where
  "closeArray s =
     (case close_scope CHR '']'' s of
        Inl e \<Rightarrow> Inl e
      | Inr s1 \<Rightarrow> Inr (s1\<lparr>m_arrayJustOpen := False\<rparr>))"

subsection \<open>Sequences of calls\<close>

text \<open>
  A session drives one serializer through a sequence of calls of its interface. A failed
  call ends the session with its error.
\<close>

text \<open>
  What a session depends on beside the code: whether the platform's \<open>char\<close> is signed,
  and the stream's text for a \<open>float\<close> and for a \<open>double\<close>.
\<close>

record platform =
  char_signed :: bool
  float_text :: "32 word \<Rightarrow> string"
  double_text :: "64 word \<Rightarrow> string"

text \<open>
  The calls of the interface. \<open>long\<close> has a constructor for each of its two widths (32
  bits, and 64 bits where it is as wide as \<open>long long\<close>).
\<close>

datatype call =
    OpenObject
  | CloseObject
  | OpenArray
  | CloseArray
  | PushKey string
  | WriteBool bool
  | WriteShort "16 word"
  | WriteUnsignedShort "16 word"
  | WriteInt "32 word"
  | WriteUnsignedInt "32 word"
  | WriteLong32 "32 word"
  | WriteUnsignedLong32 "32 word"
  | WriteLong64 "64 word"
  | WriteUnsignedLong64 "64 word"
  | WriteLongLong "64 word"
  | WriteUnsignedLongLong "64 word"
  | WriteFloat "32 word"
  | WriteDouble "64 word"
  | WriteString string
  | WriteRawJson string string

fun exec :: "platform \<Rightarrow> call \<Rightarrow> JsonSerializer \<Rightarrow> error + JsonSerializer" where
  "exec pf OpenObject s = Inr (openObject s)"
| "exec pf CloseObject s = closeObject s"
| "exec pf OpenArray s = Inr (openArray s)"
| "exec pf CloseArray s = closeArray s"
| "exec pf (PushKey k) s = Inr (pushKey (char_signed pf) k s)"
| "exec pf (WriteBool b) s = Inr (write_bool b s)"
| "exec pf (WriteShort i) s = Inr (write_short i s)"
| "exec pf (WriteUnsignedShort i) s = Inr (write_unsigned_short i s)"
| "exec pf (WriteInt i) s = Inr (write_int i s)"
| "exec pf (WriteUnsignedInt i) s = Inr (write_unsigned_int i s)"
| "exec pf (WriteLong32 i) s = write_long i s"
| "exec pf (WriteUnsignedLong32 i) s = write_unsigned_long i s"
| "exec pf (WriteLong64 i) s = write_long i s"
| "exec pf (WriteUnsignedLong64 i) s = write_unsigned_long i s"
| "exec pf (WriteLongLong i) s = write_long_long i s"
| "exec pf (WriteUnsignedLongLong i) s = write_unsigned_long_long i s"
| "exec pf (WriteFloat x) s = write_float (float_text pf) x s"
| "exec pf (WriteDouble x) s = write_double (double_text pf) x s"
| "exec pf (WriteString str) s = Inr (write_string (char_signed pf) str s)"
| "exec pf (WriteRawJson k j) s = Inr (writeRawJson (char_signed pf) k j s)"

fun run :: "platform \<Rightarrow> call list \<Rightarrow> JsonSerializer \<Rightarrow> error + JsonSerializer" where
  "run pf [] s = Inr s"
| "run pf (c # calls) s =
     (case exec pf c s of Inl e \<Rightarrow> Inl e | Inr s1 \<Rightarrow> run pf calls s1)"

text \<open>What a call does to the number of open scopes.\<close>

fun depth_change :: "call \<Rightarrow> int" where
  "depth_change OpenObject = 1"
| "depth_change OpenArray = 1"
| "depth_change CloseObject = - 1"
| "depth_change CloseArray = - 1"
| "depth_change c = 0"

text \<open>
  Modelled from the spec: the node layer of the writer (\<open>Serializer.hpp\<close>) turns an
  optional array element into calls of the backend; an absent optional is skipped, a present
  one is written as its value.
\<close>

fun optional_bool_calls :: "bool option \<Rightarrow> call list" where
  "optional_bool_calls None = []"
| "optional_bool_calls (Some b) = [WriteBool b]"

section \<open>The reader (Deserializer.hpp)\<close>

text \<open>
  Modelled from the spec: the reader backend behind the pure virtual \<open>loadKey\<close> and
  \<open>tryLoadKey\<close> of \<open>Deserializer\<close>, whose implementation for JSON is not among the
  sources. The backend holds the entries of the object that is loaded, in document order,
  and the value its cursor is positioned at. \<open>loadKey\<close> moves the cursor to the value of
  the named key and fails if the key is absent (``throw if no key''); \<open>tryLoadKey\<close> does
  the same and reports found or not found instead of failing (``equivalent to
  \<open>if (hasKey(k)) { loadKey(k); return true; } else return false\<close>''). The text of the
  error message is not specified.
\<close>

record 'v Deserializer =
  cur_object :: "(string \<times> 'v) list"
  pending :: "'v option"

text \<open>Modelled from the spec: whether the loaded object has the key.\<close>

definition hasKey :: "string \<Rightarrow> 'v Deserializer \<Rightarrow> bool" where
  "hasKey k d = (map_of (cur_object d) k \<noteq> None)"

text \<open>
  Modelled from the spec: \<open>loadKey\<close>, ``advance the reader's current-object cursor
  position to the named key; fails if absent''.
\<close>

definition loadKey :: "string \<Rightarrow> 'v Deserializer \<Rightarrow> error + 'v Deserializer" where
  "loadKey k d =
     (case map_of (cur_object d) k of
        None \<Rightarrow> Inl (DeserializerException ''no key'')
      | Some v \<Rightarrow> Inr (d\<lparr>pending := Some v\<rparr>))"

text \<open>
  Modelled from the spec: \<open>tryLoadKey\<close>, ``same, but returns a found/not-found result
  instead of failing''.
\<close>

definition tryLoadKey :: "string \<Rightarrow> 'v Deserializer \<Rightarrow> bool \<times> 'v Deserializer" where
  "tryLoadKey k d =
     (case map_of (cur_object d) k of
        None \<Rightarrow> (False, d)
      | Some v \<Rightarrow> (True, d\<lparr>pending := Some v\<rparr>))"

text \<open>
  Modelled from the spec: a primitive \<open>read\<close> of the backend, which consumes the value at
  the cursor and fails when the cursor is on no value.
\<close>

definition read_pending :: "'v Deserializer \<Rightarrow> error + 'v \<times> 'v Deserializer" where
  "read_pending d =
     (case pending d of
        None \<Rightarrow> Inl (DeserializerException ''no value'')
      | Some v \<Rightarrow> Inr (v, d\<lparr>pending := None\<rparr>))"

subsection \<open>Object nodes\<close>

text \<open>
  A \<open>DeserializerNode*\<close> returned by an object node is either the node itself or null.
  The node has no state of its own: it refers to the deserializer, whose state the model
  returns beside the pointer.
\<close>

datatype node_ptr = this_node | null_node

text \<open>\<open>DeserializerObject::key\<close>: \<open>m_deserializer.loadKey(k); return *this\<close>.\<close>

definition key :: "string \<Rightarrow> 'v Deserializer \<Rightarrow> error + 'v Deserializer" where
  "key k d = loadKey k d"

text \<open>
  \<open>DeserializerObject::optkey\<close>:
  \<open>if (m_deserializer.tryLoadKey(k)) return this; return nullptr\<close>.
\<close>

definition optkey :: "string \<Rightarrow> 'v Deserializer \<Rightarrow> node_ptr \<times> 'v Deserializer" where
  "optkey k d =
     (case tryLoadKey k d of
        (found, d1) \<Rightarrow> if found then (this_node, d1) else (null_node, d1))"

subsection \<open>Capability dispatch\<close>

text \<open>
  A reader takes the deserializer and gives the value read and the deserializer after it,
  or an error.
\<close>

type_synonym ('v, 't) reader = "'v Deserializer \<Rightarrow> error + 't \<times> 'v Deserializer"

text \<open>
  A hook \<open>huseDeserialize\<close> that can be called for \<open>T\<close> with a node: whether the type of
  the call expression is \<open>void\<close>, and what the call does.
\<close>

record ('v, 't) hook =
  returns_void :: bool
  hook_body :: "('v, 't) reader"

text \<open>
  What a type \<open>T\<close> has for \<open>DeserializerNode::val<T>\<close>: a member \<open>huseDeserialize\<close>
  callable with a node, a free function \<open>huseDeserialize\<close> callable with a node and a
  \<open>T&\<close>, an overload of the backend's \<open>read\<close> for \<open>T&\<close> (every overload of \<open>read\<close>
  returns \<open>void\<close>); each exists or not.
\<close>

record ('v, 't) value_type =
  huseDeserialize_method :: "('v, 't) hook option"
  huseDeserialize_func :: "('v, 't) hook option"
  deserializer_read :: "('v, 't) reader option"

text \<open>
  The detection traits. The primary template has the default second argument \<open>void\<close>, and
  the partial specialisation has \<open>decltype\<close> of the call expression in that place: the
  specialisation is chosen, and the trait is true, only when the call is well-formed and
  its type is \<open>void\<close>.
\<close>

definition HasDeserializeMethod :: "('v, 't) value_type \<Rightarrow> bool" where
  "HasDeserializeMethod T =
     (case huseDeserialize_method T of None \<Rightarrow> False | Some h \<Rightarrow> returns_void h)"

definition HasDeserializeFunc :: "('v, 't) value_type \<Rightarrow> bool" where
  "HasDeserializeFunc T =
     (case huseDeserialize_func T of None \<Rightarrow> False | Some h \<Rightarrow> returns_void h)"

definition HasDeserializerRead :: "('v, 't) value_type \<Rightarrow> bool" where
  "HasDeserializerRead T =
     (case deserializer_read T of None \<Rightarrow> False | Some r \<Rightarrow> True)"

text \<open>
  The outcome of instantiating \<open>val<T>\<close>: the \<open>if constexpr\<close> chain keeps one branch.
  The last branch calls \<open>cannot_deserialize\<close>, which the library declares nowhere: with
  no function of that name declared for \<open>T\<close> by its own namespace, the instantiation does
  not compile.
\<close>

datatype ('v, 't) dispatch =
    uses_method "('v, 't) reader"
  | uses_func "('v, 't) reader"
  | uses_read "('v, 't) reader"
  | cannot_deserialize

definition val :: "('v, 't) value_type \<Rightarrow> ('v, 't) dispatch" where
  "val T =
     (if HasDeserializeMethod T then uses_method (hook_body (the (huseDeserialize_method T)))
      else if HasDeserializeFunc T then uses_func (hook_body (the (huseDeserialize_func T)))
      else if HasDeserializerRead T then uses_read (the (deserializer_read T))
      else cannot_deserialize)"

text \<open>
  \<open>DeserializerObject::val(k, std::optional<T>&)\<close>. The argument \<open>rd\<close> is the
  instantiated \<open>val<T>\<close>, applied to the freshly emplaced value. The result is the
  optional and the deserializer afterwards; an exception of the read leaves through
  \<open>Inl\<close>.
\<close>

definition val_optional ::
  "('v, 't) reader \<Rightarrow> string \<Rightarrow> 'v Deserializer \<Rightarrow> error + 't option \<times> 'v Deserializer" where
  "val_optional rd k d =
     (case optkey k d of
        (this_node, d1) \<Rightarrow>
          (case rd d1 of
             Inl e \<Rightarrow> Inl e
           | Inr (x, d2) \<Rightarrow> Inr (Some x, d2))
      | (null_node, d1) \<Rightarrow> Inr (None, d1))"

section \<open>Properties of the serializer\<close>

subsection \<open>The loops in closed form\<close>

lemma indent_loop_replicate:
  "indent_loop i depth out = out @ concat (replicate (nat (depth - i)) ''  '')"
proof (induction i depth out rule: indent_loop.induct)
  case (1 i depth out)
  show ?case
  proof (cases "i < depth")
    case True
    then have "nat (depth - i) = Suc (nat (depth - (i + 1)))" by simp
    with True 1 show ?thesis
      by (subst indent_loop.simps) simp
  next
    case False
    then show ?thesis by (subst indent_loop.simps) simp
  qed
qed

lemma escape_loop_concat:
  "escape_loop cs str out = out @ concat (map (escape_char cs) str)"
  by (induction str arbitrary: out) simp_all

lemma newLine_compact: "\<not> m_pretty s \<Longrightarrow> newLine s = s"
  by (simp add: newLine_def)

lemma writeEscapedUTF8String_out:
  "m_out (writeEscapedUTF8String cs str s)
     = m_out s @ [CHR 0x22] @ concat (map (escape_char cs) str) @ [CHR 0x22]"
  by (simp add: writeEscapedUTF8String_def escape_loop_concat)

subsection \<open>Non-finite floating-point values\<close>

lemma throwException_returns: "throwException msg s = Inr s"
  by (simp add: throwException_def)

lemma writeFloatValue_finite:
  "isfinite x \<Longrightarrow> writeFloatValue isfinite fmt x s = Inr (writeSimpleValue (fmt x) s)"
  by (simp add: writeFloatValue_def)

lemma writeFloatValue_not_finite:
  "\<not> isfinite x \<Longrightarrow> writeFloatValue isfinite fmt x s = Inr s"
  by (simp add: writeFloatValue_def throwException_def)

lemma writeFloatValue_never_fails: "writeFloatValue isfinite fmt x s \<noteq> Inl e"
  by (simp add: writeFloatValue_def throwException_def)

lemma isfinite_double_zeros: "isfinite_double 0 \<and> isfinite_double 0x8000000000000000"
  by (simp add: isfinite_double_def)

lemma write_double_zeros:
  "write_double fmt 0 s = Inr (writeSimpleValue (fmt 0) s)
   \<and> write_double fmt 0x8000000000000000 s = Inr (writeSimpleValue (fmt 0x8000000000000000) s)"
  by (simp add: write_double_def writeFloatValue_def isfinite_double_def)

text \<open>
  Claim C1. A finite float or double is written as the stream's text for it
  (\<open>writeFloatValue_finite\<close>, \<open>write_double_zeros\<close>). For a non-finite value the claim asks
  for a data error with the message \<open>float not finite\<close>. The code calls
  \<open>throwException("float not finite")\<close>, whose body is empty: the write of a quiet NaN, of
  either infinity (as doubles) and of a NaN (as a float) returns normally, with the
  serializer unchanged. Nothing is emitted, and no error is raised.
\<close>

theorem write_double_not_finite_returns:
  "write_double fmt 0x7FF8000000000000 s = Inr s
   \<and> write_double fmt 0x7FF0000000000000 s = Inr s
   \<and> write_double fmt 0xFFF0000000000000 s = Inr s
   \<and> write_float fmt32 0x7FC00000 s = Inr s
   \<and> write_double fmt 0x7FF8000000000000 s \<noteq> Inl (SerializerException ''float not finite'')"
  by (simp add: write_double_def write_float_def writeFloatValue_def throwException_def
      isfinite_double_def isfinite_float_def)

subsection \<open>Integers wider than 32 bits\<close>

lemma writePotentiallyBigIntegerValue_narrow:
  "LENGTH('a::len) \<le> 32 \<Longrightarrow>
   writePotentiallyBigIntegerValue sg (v :: 'a word) s
     = Inr (writeSimpleValue (show_int (int_value sg v)) s)"
proof -
  assume "LENGTH('a) \<le> 32"
  then have "LENGTH('a) div 8 \<le> 4" by simp
  then show ?thesis by (simp add: writePotentiallyBigIntegerValue_def)
qed

lemma writePotentiallyBigIntegerValue_never_fails:
  "writePotentiallyBigIntegerValue sg v s \<noteq> Inl e"
  by (simp add: writePotentiallyBigIntegerValue_def throwException_def)

lemma write_long_long_in_range:
  "- 9007199254740992 \<le> sint v \<Longrightarrow> sint v \<le> 9007199254740992 \<Longrightarrow>
   write_long_long v s = Inr (writeSimpleValue (show_int (sint v)) s)"
  by (simp add: write_long_long_def writePotentiallyBigIntegerValue_def MAX_D_def MIN_D_def)

lemma write_unsigned_long_long_in_range:
  "uint v \<le> 9007199254740992 \<Longrightarrow>
   write_unsigned_long_long v s = Inr (writeSimpleValue (show_int (uint v)) s)"
  by (simp add: write_unsigned_long_long_def writePotentiallyBigIntegerValue_def MAX_D_def)

lemma write_long_long_out_of_range:
  "sint v < - 9007199254740992 \<or> 9007199254740992 < sint v \<Longrightarrow>
   write_long_long v s = Inr s"
  by (auto simp add: write_long_long_def writePotentiallyBigIntegerValue_def MAX_D_def MIN_D_def
      throwException_def)

lemma write_unsigned_long_long_out_of_range:
  "9007199254740992 < uint v \<Longrightarrow> write_unsigned_long_long v s = Inr s"
  by (simp add: write_unsigned_long_long_def writePotentiallyBigIntegerValue_def MAX_D_def
      throwException_def)

lemma write_long_long_boundary:
  "write_long_long 9007199254740992 s = Inr (writeSimpleValue ''9007199254740992'' s)
   \<and> write_long_long (- 9007199254740992) s = Inr (writeSimpleValue ''-9007199254740992'' s)"
  by (simp add: write_long_long_def writePotentiallyBigIntegerValue_def MAX_D_def MIN_D_def
      show_int_def digits.simps)

text \<open>
  Claim C2. An integer of at most 32 bits is written with no range check
  (\<open>writePotentiallyBigIntegerValue_narrow\<close>), and a wider one of magnitude at most
  9007199254740992 is written too (\<open>write_long_long_in_range\<close>,
  \<open>write_unsigned_long_long_in_range\<close>, \<open>write_long_long_boundary\<close>). For a wider integer
  of larger magnitude the claim asks for a data error with the message
  \<open>integer too big\<close>. The code calls \<open>throwException("integer too big")\<close>, whose body is
  empty: the write of 9007199254740993 as a \<open>long long\<close> and as an
  \<open>unsigned long long\<close>, and of -9007199254740993 as a \<open>long long\<close>, returns normally
  with the serializer unchanged. Nothing is emitted, and no error is raised.
\<close>

theorem write_long_long_too_big_returns:
  "write_long_long 9007199254740993 s = Inr s
   \<and> write_long_long (- 9007199254740993) s = Inr s
   \<and> write_unsigned_long_long 9007199254740993 s = Inr s
   \<and> write_long_long 9007199254740993 s \<noteq> Inl (SerializerException ''integer too big'')"
  by (simp add: write_long_long_def write_unsigned_long_long_def
      writePotentiallyBigIntegerValue_def MAX_D_def MIN_D_def throwException_def)

subsection \<open>String escaping\<close>

lemma of_char_int_less_256: "(of_char c :: int) < 256"
proof -
  have "(of_char c :: int) = int (of_char c)" by (simp add: of_nat_of_char)
  moreover have "(of_char c :: nat) < 256" by (rule nat_of_char_less_256)
  ultimately show ?thesis by linarith
qed

lemma cval_unsigned: "cval False c = of_char c"
  by (simp add: cval_def)

lemma cval_signed_high: "128 \<le> (of_char c :: int) \<Longrightarrow> cval True c = of_char c - 256"
  unfolding cval_def by (simp only: simp_thms if_True)

lemma cval_low: "(of_char c :: int) < 128 \<Longrightarrow> cval cs c = of_char c"
  unfolding cval_def by (simp only: simp_thms if_False not_le[symmetric])

lemma escape_char_short:
  "escape_char cs (CHR 0x22) = [CHR 0x5C, CHR 0x22]"
  "escape_char cs (CHR 0x5C) = [CHR 0x5C, CHR 0x5C]"
  "escape_char cs (CHR 0x0A) = [CHR 0x5C, CHR ''n'']"
  "escape_char cs (CHR 0x0D) = [CHR 0x5C, CHR ''r'']"
  "escape_char cs (CHR 0x08) = [CHR 0x5C, CHR ''b'']"
  "escape_char cs (CHR 0x09) = [CHR 0x5C, CHR ''t'']"
  "escape_char cs (CHR 0x0C) = [CHR 0x5C, CHR ''f'']"
  by (simp_all add: escape_char_def)

lemma escape_char_passes:
  "\<not> short_escaped c \<Longrightarrow> 32 \<le> cval cs c \<Longrightarrow> escape_char cs c = [c]"
  by (simp add: escape_char_def short_escaped_def)

lemma escape_char_prefixed:
  "\<not> short_escaped c \<Longrightarrow> cval cs c < 32 \<Longrightarrow>
   escape_char cs c =
     (if cval cs c < 16 then CHR 0x5C # ''u000'' else CHR 0x5C # ''u00'') @ [c]"
  by (simp add: escape_char_def short_escaped_def)

lemma short_escaped_low: "short_escaped c \<Longrightarrow> (of_char c :: int) < 128"
  unfolding short_escaped_def by auto

lemma high_not_short_escaped: "128 \<le> (of_char c :: int) \<Longrightarrow> \<not> short_escaped c"
  using short_escaped_low [of c] by linarith

text \<open>A printable ASCII character without a short escape is written as it is.\<close>

lemma escape_char_ascii:
  assumes "\<not> short_escaped c" and "32 \<le> (of_char c :: int)" and "(of_char c :: int) < 128"
  shows "escape_char cs c = [c]"
proof -
  have "cval cs c = of_char c" using assms(3) by (rule cval_low)
  with assms(2) have "32 \<le> cval cs c" by (simp only:)
  with assms(1) show ?thesis by (rule escape_char_passes)
qed

text \<open>
  A control character without a short escape is written as the prefix followed by the
  character itself, not by its hexadecimal digits.
\<close>

lemma escape_char_control:
  assumes "\<not> short_escaped c" and "(of_char c :: int) < 32"
  shows "escape_char cs c =
     (if (of_char c :: int) < 16 then CHR 0x5C # ''u000'' else CHR 0x5C # ''u00'') @ [c]"
proof -
  have "(of_char c :: int) < 128" using assms(2) by linarith
  then have eq: "cval cs c = of_char c" by (rule cval_low)
  with assms(2) have "cval cs c < 32" by (simp only:)
  from escape_char_prefixed [OF assms(1) this] show ?thesis by (simp only: eq)
qed

text \<open>
  A byte at or above 0x80 passes through where \<open>char\<close> is unsigned. Where \<open>char\<close> is
  signed the byte is negative, fails \<open>c >= ' '\<close> and is written after the prefix
  \<open>\u000\<close>.
\<close>

lemma escape_char_high_unsigned:
  assumes "128 \<le> (of_char c :: int)"
  shows "escape_char False c = [c]"
proof -
  have "32 \<le> (of_char c :: int)" using assms by linarith
  then have "32 \<le> cval False c" by (simp only: cval_unsigned)
  with high_not_short_escaped [OF assms] show ?thesis by (rule escape_char_passes)
qed

lemma escape_char_high_signed:
  assumes "128 \<le> (of_char c :: int)"
  shows "escape_char True c = CHR 0x5C # ''u000'' @ [c]"
proof -
  have "cval True c = of_char c - 256" using assms by (rule cval_signed_high)
  moreover have "(of_char c :: int) - 256 < 0" using of_char_int_less_256 [of c] by linarith
  ultimately have neg: "cval True c < 0" by (simp only:)
  then have lt32: "cval True c < 32" and lt16: "cval True c < 16" by linarith+
  from escape_char_prefixed [OF high_not_short_escaped [OF assms] lt32] lt16
  show ?thesis by (simp only: if_True append_Cons)
qed

lemma utf8_bytes_signed_char_output:
  "m_out (writeEscapedUTF8String True [CHR 0xC3, CHR 0xA9] s)
     = m_out s @ [CHR 0x22, CHR 0x5C, CHR ''u'', CHR ''0'', CHR ''0'', CHR ''0'', CHR 0xC3,
                  CHR 0x5C, CHR ''u'', CHR ''0'', CHR ''0'', CHR ''0'', CHR 0xA9, CHR 0x22]"
  by (simp add: writeEscapedUTF8String_def escape_char_def cval_def)

lemma utf8_bytes_unsigned_char_output:
  "m_out (writeEscapedUTF8String False [CHR 0xC3, CHR 0xA9] s)
     = m_out s @ [CHR 0x22, CHR 0xC3, CHR 0xA9, CHR 0x22]"
  by (simp add: writeEscapedUTF8String_def escape_char_def cval_def)

text \<open>
  Claim C3. The output is the input between double quotes, with the seven short escapes
  (\<open>escape_char_short\<close>) and printable ASCII unchanged (\<open>escape_char_ascii\<close>). For the
  other characters below 0x20 the claim asks for a \<open>\u00XX\<close> escape with the two
  hexadecimal digits of the character. The code writes the prefix and then inserts the
  \<open>char\<close> itself into the stream: for the one-byte string 0x01 the output is the quote,
  \<open>\u000\<close>, the raw byte 0x01 and the quote, not \<open>\u0001\<close>; for the byte 0x1F it is
  \<open>\u00\<close> and the raw byte 0x1F. This is so on either kind of platform \<open>char\<close>.
\<close>

theorem control_character_escape_output:
  "m_out (writeEscapedUTF8String cs [CHR 0x01] s)
     = m_out s @ [CHR 0x22, CHR 0x5C, CHR ''u'', CHR ''0'', CHR ''0'', CHR ''0'', CHR 0x01, CHR 0x22]
   \<and> m_out (writeEscapedUTF8String cs [CHR 0x1F] s)
     = m_out s @ [CHR 0x22, CHR 0x5C, CHR ''u'', CHR ''0'', CHR ''0'', CHR 0x1F, CHR 0x22]
   \<and> m_out (writeEscapedUTF8String cs [CHR 0x01] s)
     \<noteq> m_out s @ [CHR 0x22, CHR 0x5C, CHR ''u'', CHR ''0'', CHR ''0'', CHR ''0'', CHR ''1'', CHR 0x22]"
  by (simp add: writeEscapedUTF8String_def escape_char_def cval_def)

subsection \<open>Compact output of a small document\<close>

text \<open>
  Claim C5. The object with key \<open>a\<close> mapped to the integer 1 and key \<open>b\<close> mapped to the
  array of \<open>true\<close>, \<open>false\<close> and an absent optional is written by the calls: open
  object, key \<open>a\<close>, integer 1, key \<open>b\<close>, open array, \<open>true\<close>, \<open>false\<close>, nothing for
  the absent optional, close array, close object. In compact mode the session succeeds and
  the text written is exactly \<open>{"a":1,"b":[true,false]}\<close>, with commas between the values
  of a scope and no whitespace, on every platform.
\<close>

theorem compact_example_output:
  \<open>run pf
     ([OpenObject, PushKey ''a'', WriteInt 1, PushKey ''b'', OpenArray,
       WriteBool True, WriteBool False] @ optional_bool_calls None @ [CloseArray, CloseObject])
     (JsonSerializer_ctor False)
   = Inr \<lparr>m_out = ''{"a":1,"b":[true,false]}'', m_pretty = False, m_hasValue = True,
           m_arrayJustOpen = False, m_depth = 0\<rparr>\<close>
  by (simp add: JsonSerializer_ctor_def openObject_def closeObject_def openArray_def
      closeArray_def open_scope_def close_scope_def pushKey_def write_bool_def write_int_def
      writeSimpleValue_def prepareWriteVal_def newLine_def writeEscapedUTF8String_def
      escape_char_def cval_def show_int_def digits.simps Let_def)

subsection \<open>The nesting depth\<close>

lemma newLine_depth: "m_depth (newLine s) = m_depth s"
  by (simp add: newLine_def)

lemma prepareWriteVal_depth: "m_depth (prepareWriteVal s) = m_depth s"
  by (simp add: prepareWriteVal_def newLine_def Let_def)

lemma writeSimpleValue_depth: "m_depth (writeSimpleValue txt s) = m_depth s"
  by (simp add: writeSimpleValue_def prepareWriteVal_depth Let_def)

lemma open_scope_depth: "m_depth (open_scope c s) = m_depth s + 1"
  by (simp add: open_scope_def prepareWriteVal_depth Let_def)

lemma close_scope_open:
  "m_depth s \<noteq> 0 \<Longrightarrow> \<exists>s1. close_scope c s = Inr s1 \<and> m_depth s1 = m_depth s - 1"
  by (simp add: close_scope_def newLine_def Let_def)

lemma close_scope_none_open: "m_depth s = 0 \<Longrightarrow> close_scope c s = Inl AssertionFailure"
  by (simp add: close_scope_def)

lemma close_scope_depth:
  "close_scope c s = Inr s1 \<Longrightarrow> m_depth s1 = m_depth s - 1 \<and> m_depth s \<noteq> 0"
  by (auto simp add: close_scope_def newLine_def Let_def split: if_splits)

lemma throwing_write_depth:
  "writePotentiallyBigIntegerValue sg v s = Inr s1 \<Longrightarrow> m_depth s1 = m_depth s"
  "writeFloatValue isf fmt x s = Inr s1 \<Longrightarrow> m_depth s1 = m_depth s"
  by (auto simp add: writePotentiallyBigIntegerValue_def writeFloatValue_def throwException_def
      writeSimpleValue_depth split: if_splits)

lemma pushKey_depth: "m_depth (pushKey cs k s) = m_depth s"
  by (simp add: pushKey_def writeEscapedUTF8String_def newLine_def Let_def)

lemma exec_depth:
  "exec pf c s = Inr s1 \<Longrightarrow> m_depth s1 = m_depth s + depth_change c"
proof (cases c)
  case CloseObject
  then show "exec pf c s = Inr s1 \<Longrightarrow> ?thesis"
    by (auto simp add: closeObject_def dest: close_scope_depth)
next
  case CloseArray
  then show "exec pf c s = Inr s1 \<Longrightarrow> ?thesis"
    by (auto simp add: closeArray_def split: sum.splits dest: close_scope_depth)
qed (auto simp add: openObject_def openArray_def open_scope_depth pushKey_depth write_bool_def
      write_short_def write_unsigned_short_def write_int_def write_unsigned_int_def
      writeSimpleValue_depth write_long_def write_unsigned_long_def write_long_long_def
      write_unsigned_long_long_def write_float_def write_double_def write_string_def
      writeRawJson_def writeEscapedUTF8String_def prepareWriteVal_depth Let_def
      dest: throwing_write_depth)

lemma exec_depth_nonneg:
  assumes "exec pf c s = Inr s1" and "0 \<le> m_depth s"
  shows "0 \<le> m_depth s1"
proof (cases "c = CloseObject \<or> c = CloseArray")
  case True
  with assms(1) have "m_depth s \<noteq> 0"
    by (auto simp add: closeObject_def closeArray_def split: sum.splits dest: close_scope_depth)
  moreover from True have "depth_change c = - 1" by auto
  ultimately show ?thesis using exec_depth [OF assms(1)] assms(2) by linarith
next
  case False
  then have "0 \<le> depth_change c" by (cases c) auto
  then show ?thesis using exec_depth [OF assms(1)] assms(2) by linarith
qed

lemma run_depth:
  "run pf calls s = Inr s1 \<Longrightarrow> m_depth s1 = m_depth s + sum_list (map depth_change calls)"
proof (induction calls arbitrary: s)
  case Nil
  then show ?case by simp
next
  case (Cons c calls)
  then obtain s2 where e: "exec pf c s = Inr s2" and r: "run pf calls s2 = Inr s1"
    by (auto split: sum.splits)
  from Cons.IH [OF r] exec_depth [OF e] show ?case by simp
qed

lemma run_depth_nonneg:
  "run pf calls s = Inr s1 \<Longrightarrow> 0 \<le> m_depth s \<Longrightarrow> 0 \<le> m_depth s1"
proof (induction calls arbitrary: s)
  case Nil
  then show ?case by simp
next
  case (Cons c calls)
  then obtain s2 where e: "exec pf c s = Inr s2" and r: "run pf calls s2 = Inr s1"
    by (auto split: sum.splits)
  from exec_depth_nonneg [OF e Cons.prems(2)] Cons.IH [OF r] show ?case by simp
qed

lemma ctor_depth: "m_depth (JsonSerializer_ctor p) = 0"
  by (simp add: JsonSerializer_ctor_def)

text \<open>
  Claim C8. Every call changes the nesting depth by exactly its \<open>depth_change\<close>: opening
  an object or an array adds one, closing one subtracts one, every other call leaves it.
  Closing with no scope open fails the assertion, a programming error and not a data error;
  so does destroying the serializer while the depth is not zero, and destroying it at depth
  zero passes. In every session that starts from a new serializer and succeeds, the depth is
  the number of scopes opened minus the number closed, and it is never negative.
\<close>

theorem depth_counter_invariant:
  "(exec pf c s = Inr s1 \<longrightarrow> m_depth s1 = m_depth s + depth_change c)
   \<and> m_depth (openObject s) = m_depth s + 1
   \<and> m_depth (openArray s) = m_depth s + 1
   \<and> (m_depth s \<noteq> 0 \<longrightarrow>
        (\<exists>s2. closeObject s = Inr s2 \<and> m_depth s2 = m_depth s - 1)
        \<and> (\<exists>s2. closeArray s = Inr s2 \<and> m_depth s2 = m_depth s - 1)
        \<and> JsonSerializer_dtor s = Inl AssertionFailure)
   \<and> (m_depth s = 0 \<longrightarrow>
        closeObject s = Inl AssertionFailure \<and> closeArray s = Inl AssertionFailure
        \<and> JsonSerializer_dtor s = Inr ())
   \<and> \<not> is_data_error AssertionFailure
   \<and> (run pf calls (JsonSerializer_ctor p) = Inr s3 \<longrightarrow>
        0 \<le> m_depth s3 \<and> m_depth s3 = sum_list (map depth_change calls))"
proof (intro conjI impI)
  assume "exec pf c s = Inr s1"
  then show "m_depth s1 = m_depth s + depth_change c" by (rule exec_depth)
next
  show "m_depth (openObject s) = m_depth s + 1" by (simp add: openObject_def open_scope_depth)
next
  show "m_depth (openArray s) = m_depth s + 1" by (simp add: openArray_def open_scope_depth)
next
  assume "m_depth s \<noteq> 0"
  then show "\<exists>s2. closeObject s = Inr s2 \<and> m_depth s2 = m_depth s - 1"
    unfolding closeObject_def by (rule close_scope_open)
next
  assume "m_depth s \<noteq> 0"
  from close_scope_open [OF this, of "CHR '']''"]
  show "\<exists>s2. closeArray s = Inr s2 \<and> m_depth s2 = m_depth s - 1"
    by (auto simp add: closeArray_def)
next
  assume "m_depth s \<noteq> 0"
  then show "JsonSerializer_dtor s = Inl AssertionFailure" by (simp add: JsonSerializer_dtor_def)
next
  assume "m_depth s = 0"
  then show "closeObject s = Inl AssertionFailure"
    by (simp add: closeObject_def close_scope_none_open)
next
  assume "m_depth s = 0"
  then show "closeArray s = Inl AssertionFailure"
    by (simp add: closeArray_def close_scope_none_open)
next
  assume "m_depth s = 0"
  then show "JsonSerializer_dtor s = Inr ()" by (simp add: JsonSerializer_dtor_def)
next
  show "\<not> is_data_error AssertionFailure" by simp
next
  assume r: "run pf calls (JsonSerializer_ctor p) = Inr s3"
  from run_depth_nonneg [OF r] show "0 \<le> m_depth s3" by (simp add: ctor_depth)
next
  assume r: "run pf calls (JsonSerializer_ctor p) = Inr s3"
  from run_depth [OF r] show "m_depth s3 = sum_list (map depth_change calls)"
    by (simp add: ctor_depth)
qed

theorem depth_counter_invariant_witness:
  "m_depth (openObject (JsonSerializer_ctor False)) = 1
   \<and> closeObject (JsonSerializer_ctor False) = Inl AssertionFailure
   \<and> JsonSerializer_dtor (JsonSerializer_ctor False) = Inr ()
   \<and> (\<exists>s2. closeObject (openObject (JsonSerializer_ctor False)) = Inr s2 \<and> m_depth s2 = 0)
   \<and> JsonSerializer_dtor (openObject (JsonSerializer_ctor False)) = Inl AssertionFailure
   \<and> (\<exists>s3. run \<lparr>char_signed = True, float_text = (\<lambda>x. []), double_text = (\<lambda>x. [])\<rparr>
               [OpenObject, OpenArray, CloseArray] (JsonSerializer_ctor False) = Inr s3
         \<and> m_depth s3 = 1)"
proof -
  let ?pf = "\<lparr>char_signed = True, float_text = (\<lambda>x. []), double_text = (\<lambda>x. [])\<rparr>"
  let ?s0 = "JsonSerializer_ctor False"
  let ?s1 = "openObject ?s0"
  have d0: "m_depth ?s0 = 0" by (simp add: ctor_depth)
  have d1: "m_depth ?s1 = 1"
    using depth_counter_invariant [of ?pf OpenObject ?s0 ?s1 "[]" False ?s0] d0
    by simp
  have c0: "closeObject ?s0 = Inl AssertionFailure \<and> JsonSerializer_dtor ?s0 = Inr ()"
    using depth_counter_invariant [of ?pf OpenObject ?s0 ?s1 "[]" False ?s0] d0
    by simp
  have c1: "(\<exists>s2. closeObject ?s1 = Inr s2 \<and> m_depth s2 = 0)
     \<and> JsonSerializer_dtor ?s1 = Inl AssertionFailure"
    using depth_counter_invariant [of ?pf OpenObject ?s1 "openObject ?s1" "[]" False ?s0] d1
    by simp
  obtain s3 where r: "run ?pf [OpenObject, OpenArray, CloseArray] ?s0 = Inr s3"
    by (simp add: openObject_def openArray_def closeArray_def open_scope_def close_scope_def
        prepareWriteVal_def newLine_def JsonSerializer_ctor_def Let_def)
  have "m_depth s3 = 1"
    using depth_counter_invariant [of ?pf OpenObject ?s0 ?s1
        "[OpenObject, OpenArray, CloseArray]" False s3] r
    by simp
  with r d1 c0 c1 show ?thesis by blast
qed

subsection \<open>Raw fragments\<close>

text \<open>
  Claim C9. \<open>writeRawJson(k, j)\<close> leaves the serializer as the key write \<open>pushKey(k)\<close>
  does, with the fragment \<open>j\<close> appended to the output unchanged and the scope marked as
  holding a value. The key write emits a comma if the scope already holds a value, the line
  break and indentation of pretty mode, the escaped key between quotes and a colon. The
  fragment goes through no escaping, and the depth and the other flags are as before.
\<close>

theorem writeRawJson_emits_key_then_fragment:
  "writeRawJson cs k j s
     = (pushKey cs k s)\<lparr>m_out := m_out (pushKey cs k s) @ j, m_hasValue := True\<rparr>
   \<and> m_out (pushKey cs k s)
     = m_out s @ (if m_hasValue s then '','' else [])
         @ (if m_pretty s then CHR 0x0A # concat (replicate (nat (m_depth s)) ''  '') else [])
         @ [CHR 0x22] @ concat (map (escape_char cs) k) @ [CHR 0x22] @ '':''
   \<and> m_out (writeRawJson cs k j s) = m_out (pushKey cs k s) @ j
   \<and> m_hasValue (writeRawJson cs k j s) = True
   \<and> m_depth (writeRawJson cs k j s) = m_depth s
   \<and> m_pretty (writeRawJson cs k j s) = m_pretty s
   \<and> m_arrayJustOpen (writeRawJson cs k j s) = m_arrayJustOpen s"
  by (simp add: writeRawJson_def pushKey_def newLine_def writeEscapedUTF8String_def
      escape_loop_concat indent_loop_replicate Let_def)

section \<open>Properties of the reader\<close>

subsection \<open>Capability dispatch\<close>

lemma HasDeserializeMethod_iff:
  "HasDeserializeMethod T \<longleftrightarrow> (\<exists>h. huseDeserialize_method T = Some h \<and> returns_void h)"
  by (simp add: HasDeserializeMethod_def split: option.splits)

lemma HasDeserializeFunc_iff:
  "HasDeserializeFunc T \<longleftrightarrow> (\<exists>h. huseDeserialize_func T = Some h \<and> returns_void h)"
  by (simp add: HasDeserializeFunc_def split: option.splits)

lemma HasDeserializerRead_iff:
  "HasDeserializerRead T \<longleftrightarrow> (\<exists>r. deserializer_read T = Some r)"
  by (simp add: HasDeserializerRead_def split: option.splits)

text \<open>
  Claim C6, as stated, fails: a member \<open>huseDeserialize\<close> that exists is not always the
  strategy \<open>val<T>\<close> uses. For a type whose member returns a non-\<open>void\<close> type and which
  also has a free function returning \<open>void\<close>, the member's trait is false and the free
  function is used; for a type that has only such a member, the instantiation does not
  compile although the member exists.
\<close>

theorem val_member_exists_not_used:
  "huseDeserialize_method
       (\<lparr>huseDeserialize_method = Some \<lparr>returns_void = False, hook_body = read_pending\<rparr>,
         huseDeserialize_func = Some \<lparr>returns_void = True, hook_body = (\<lambda>d. Inr (0, d))\<rparr>,
         deserializer_read = None\<rparr> :: (int, int) value_type)
     = Some \<lparr>returns_void = False, hook_body = read_pending\<rparr>
   \<and> val (\<lparr>huseDeserialize_method = Some \<lparr>returns_void = False, hook_body = read_pending\<rparr>,
           huseDeserialize_func = Some \<lparr>returns_void = True, hook_body = (\<lambda>d. Inr (0, d))\<rparr>,
           deserializer_read = None\<rparr> :: (int, int) value_type)
     = uses_func (\<lambda>d. Inr (0, d))
   \<and> val (\<lparr>huseDeserialize_method = Some \<lparr>returns_void = False, hook_body = read_pending\<rparr>,
           huseDeserialize_func = Some \<lparr>returns_void = True, hook_body = (\<lambda>d. Inr (0, d))\<rparr>,
           deserializer_read = None\<rparr> :: (int, int) value_type)
     \<noteq> uses_method read_pending
   \<and> val (\<lparr>huseDeserialize_method = Some \<lparr>returns_void = False, hook_body = read_pending\<rparr>,
           huseDeserialize_func = None,
           deserializer_read = None\<rparr> :: (int, int) value_type)
     = cannot_deserialize"
  by (simp add: val_def HasDeserializeMethod_def HasDeserializeFunc_def HasDeserializerRead_def)

text \<open>
  Claim C6, amended. \<open>val<T>\<close> selects one strategy, fixed by what \<open>T\<close> has, in this
  order of priority: the member \<open>huseDeserialize\<close> if \<open>T\<close> has one whose call has type
  \<open>void\<close>; otherwise the free function \<open>huseDeserialize\<close> if there is one whose call has
  type \<open>void\<close>; otherwise the primitive \<open>read\<close> of the backend if there is one for
  \<open>T\<close>. The instantiation fails to compile exactly when none of the three applies, so
  that no call of \<open>val\<close> fails at run time for lack of a strategy.
\<close>

theorem val_dispatch_priority:
  "(huseDeserialize_method T = Some m \<and> returns_void m \<longrightarrow> val T = uses_method (hook_body m))
   \<and> ((\<forall>h. huseDeserialize_method T = Some h \<longrightarrow> \<not> returns_void h)
        \<and> huseDeserialize_func T = Some f \<and> returns_void f \<longrightarrow>
      val T = uses_func (hook_body f))
   \<and> ((\<forall>h. huseDeserialize_method T = Some h \<longrightarrow> \<not> returns_void h)
        \<and> (\<forall>h. huseDeserialize_func T = Some h \<longrightarrow> \<not> returns_void h)
        \<and> deserializer_read T = Some r \<longrightarrow>
      val T = uses_read r)
   \<and> (val T = cannot_deserialize \<longleftrightarrow>
        (\<forall>h. huseDeserialize_method T = Some h \<longrightarrow> \<not> returns_void h)
        \<and> (\<forall>h. huseDeserialize_func T = Some h \<longrightarrow> \<not> returns_void h)
        \<and> deserializer_read T = None)"
proof (intro conjI impI)
  assume "huseDeserialize_method T = Some m \<and> returns_void m"
  then show "val T = uses_method (hook_body m)"
    by (simp add: val_def HasDeserializeMethod_def)
next
  assume a: "(\<forall>h. huseDeserialize_method T = Some h \<longrightarrow> \<not> returns_void h)
    \<and> huseDeserialize_func T = Some f \<and> returns_void f"
  then have "\<not> HasDeserializeMethod T" by (simp add: HasDeserializeMethod_iff)
  with a show "val T = uses_func (hook_body f)"
    by (simp add: val_def HasDeserializeFunc_def)
next
  assume a: "(\<forall>h. huseDeserialize_method T = Some h \<longrightarrow> \<not> returns_void h)
    \<and> (\<forall>h. huseDeserialize_func T = Some h \<longrightarrow> \<not> returns_void h)
    \<and> deserializer_read T = Some r"
  then have "\<not> HasDeserializeMethod T" and "\<not> HasDeserializeFunc T"
    by (simp_all add: HasDeserializeMethod_iff HasDeserializeFunc_iff)
  with a show "val T = uses_read r"
    by (simp add: val_def HasDeserializerRead_def)
next
  have "val T = cannot_deserialize \<longleftrightarrow>
      \<not> HasDeserializeMethod T \<and> \<not> HasDeserializeFunc T \<and> \<not> HasDeserializerRead T"
    by (simp add: val_def)
  then show "val T = cannot_deserialize \<longleftrightarrow>
      (\<forall>h. huseDeserialize_method T = Some h \<longrightarrow> \<not> returns_void h)
      \<and> (\<forall>h. huseDeserialize_func T = Some h \<longrightarrow> \<not> returns_void h)
      \<and> deserializer_read T = None"
    by (simp add: HasDeserializeMethod_iff HasDeserializeFunc_iff HasDeserializerRead_iff)
qed

theorem val_dispatch_priority_witness:
  "val (\<lparr>huseDeserialize_method = Some \<lparr>returns_void = True, hook_body = read_pending\<rparr>,
         huseDeserialize_func = Some \<lparr>returns_void = True, hook_body = (\<lambda>d. Inr (0, d))\<rparr>,
         deserializer_read = Some (\<lambda>d. Inr (1, d))\<rparr> :: (int, int) value_type)
     = uses_method read_pending
   \<and> val (\<lparr>huseDeserialize_method = None,
           huseDeserialize_func = Some \<lparr>returns_void = True, hook_body = (\<lambda>d. Inr (0, d))\<rparr>,
           deserializer_read = Some read_pending\<rparr> :: (int, int) value_type)
     = uses_func (\<lambda>d. Inr (0, d))
   \<and> val (\<lparr>huseDeserialize_method = None,
           huseDeserialize_func = Some \<lparr>returns_void = False, hook_body = (\<lambda>d. Inr (0, d))\<rparr>,
           deserializer_read = Some read_pending\<rparr> :: (int, int) value_type)
     = uses_read read_pending
   \<and> val (\<lparr>huseDeserialize_method = None,
           huseDeserialize_func = None,
           deserializer_read = None\<rparr> :: (int, int) value_type)
     = cannot_deserialize"
  using
    val_dispatch_priority [of
      "\<lparr>huseDeserialize_method = Some \<lparr>returns_void = True, hook_body = read_pending\<rparr>,
        huseDeserialize_func = Some \<lparr>returns_void = True, hook_body = (\<lambda>d. Inr (0, d))\<rparr>,
        deserializer_read = Some (\<lambda>d. Inr (1, d))\<rparr> :: (int, int) value_type"
      "\<lparr>returns_void = True, hook_body = read_pending\<rparr>"
      "\<lparr>returns_void = True, hook_body = (\<lambda>d. Inr (0, d))\<rparr>"
      "\<lambda>d. Inr (1, d)"]
    val_dispatch_priority [of
      "\<lparr>huseDeserialize_method = None,
        huseDeserialize_func = Some \<lparr>returns_void = True, hook_body = (\<lambda>d. Inr (0, d))\<rparr>,
        deserializer_read = Some read_pending\<rparr> :: (int, int) value_type"
      "\<lparr>returns_void = True, hook_body = read_pending\<rparr>"
      "\<lparr>returns_void = True, hook_body = (\<lambda>d. Inr (0, d))\<rparr>"
      read_pending]
    val_dispatch_priority [of
      "\<lparr>huseDeserialize_method = None,
        huseDeserialize_func = Some \<lparr>returns_void = False, hook_body = (\<lambda>d. Inr (0, d))\<rparr>,
        deserializer_read = Some read_pending\<rparr> :: (int, int) value_type"
      "\<lparr>returns_void = True, hook_body = read_pending\<rparr>"
      "\<lparr>returns_void = True, hook_body = (\<lambda>d. Inr (0, d))\<rparr>"
      read_pending]
    val_dispatch_priority [of
      "\<lparr>huseDeserialize_method = None,
        huseDeserialize_func = None,
        deserializer_read = None\<rparr> :: (int, int) value_type"
      "\<lparr>returns_void = True, hook_body = read_pending\<rparr>"
      "\<lparr>returns_void = True, hook_body = (\<lambda>d. Inr (0, d))\<rparr>"
      read_pending]
  by simp

subsection \<open>Required and optional keys\<close>

lemma loadKey_present:
  "map_of (cur_object d) k = Some v \<Longrightarrow> loadKey k d = Inr (d\<lparr>pending := Some v\<rparr>)"
  by (simp add: loadKey_def)

lemma tryLoadKey_present:
  "map_of (cur_object d) k = Some v \<Longrightarrow> tryLoadKey k d = (True, d\<lparr>pending := Some v\<rparr>)"
  by (simp add: tryLoadKey_def)

lemma tryLoadKey_absent: "map_of (cur_object d) k = None \<Longrightarrow> tryLoadKey k d = (False, d)"
  by (simp add: tryLoadKey_def)

lemma tryLoadKey_hasKey:
  "tryLoadKey k d = (if hasKey k d then (True, projr (loadKey k d)) else (False, d))"
  by (simp add: tryLoadKey_def loadKey_def hasKey_def split: option.splits)

lemma optkey_present:
  "map_of (cur_object d) k = Some v \<Longrightarrow> optkey k d = (this_node, d\<lparr>pending := Some v\<rparr>)"
  by (simp add: optkey_def tryLoadKey_present)

lemma optkey_absent: "map_of (cur_object d) k = None \<Longrightarrow> optkey k d = (null_node, d)"
  by (simp add: optkey_def tryLoadKey_absent)

text \<open>
  Claim C7. On an object node, when the key \<open>k\<close> is present with value \<open>v\<close>, the required
  lookup \<open>key\<close> succeeds with the cursor at \<open>v\<close>, and the optional lookup \<open>optkey\<close>
  returns the node with the cursor at \<open>v\<close>. When \<open>k\<close> is absent, \<open>key\<close> fails with a
  data error, and \<open>optkey\<close> returns the null pointer without failing and without moving
  the cursor.
\<close>

theorem key_optkey_lookup:
  "(map_of (cur_object d) k = Some v \<longrightarrow>
      key k d = Inr (d\<lparr>pending := Some v\<rparr>)
      \<and> optkey k d = (this_node, d\<lparr>pending := Some v\<rparr>))
   \<and> (map_of (cur_object d) k = None \<longrightarrow>
      (\<exists>e. key k d = Inl e \<and> is_data_error e) \<and> optkey k d = (null_node, d))"
  by (simp add: key_def loadKey_def optkey_present optkey_absent)

theorem key_optkey_lookup_witness:
  "key ''a'' \<lparr>cur_object = [(''a'', 1 :: int)], pending = None\<rparr>
     = Inr \<lparr>cur_object = [(''a'', 1)], pending = Some 1\<rparr>
   \<and> optkey ''a'' \<lparr>cur_object = [(''a'', 1 :: int)], pending = None\<rparr>
     = (this_node, \<lparr>cur_object = [(''a'', 1)], pending = Some 1\<rparr>)
   \<and> (\<exists>e. key ''b'' \<lparr>cur_object = [(''a'', 1 :: int)], pending = None\<rparr> = Inl e
          \<and> is_data_error e)
   \<and> optkey ''b'' \<lparr>cur_object = [(''a'', 1 :: int)], pending = None\<rparr>
     = (null_node, \<lparr>cur_object = [(''a'', 1)], pending = None\<rparr>)"
  using
    key_optkey_lookup [of "\<lparr>cur_object = [(''a'', 1 :: int)], pending = None\<rparr>" "''a''" 1]
    key_optkey_lookup [of "\<lparr>cur_object = [(''a'', 1 :: int)], pending = None\<rparr>" "''b''" 1]
  by simp

subsection \<open>Reading into an optional\<close>

text \<open>
  Claim C10. \<open>val(k, std::optional<T>&)\<close> on an object node does not fail when the key
  \<open>k\<close> is absent: it succeeds, the optional is disengaged and the deserializer is as
  before, nothing consumed. When \<open>k\<close> is present with value \<open>v\<close>, the optional is engaged
  and the read of \<open>T\<close> runs with the cursor at \<open>v\<close>: the result is the value read, or the
  error of that read.
\<close>

theorem val_optional_absent_key:
  "(map_of (cur_object d) k = None \<longrightarrow> val_optional rd k d = Inr (None, d))
   \<and> (map_of (cur_object d) k = Some v \<longrightarrow>
        val_optional rd k d =
          (case rd (d\<lparr>pending := Some v\<rparr>) of
             Inl e \<Rightarrow> Inl e
           | Inr (x, d2) \<Rightarrow> Inr (Some x, d2)))"
  by (simp add: val_optional_def optkey_present optkey_absent)

theorem val_optional_absent_key_witness:
  "val_optional read_pending ''b'' \<lparr>cur_object = [(''a'', 1 :: int)], pending = None\<rparr>
     = Inr (None, \<lparr>cur_object = [(''a'', 1)], pending = None\<rparr>)
   \<and> val_optional read_pending ''a'' \<lparr>cur_object = [(''a'', 1 :: int)], pending = None\<rparr>
     = Inr (Some 1, \<lparr>cur_object = [(''a'', 1)], pending = None\<rparr>)"
  using
    val_optional_absent_key [of "\<lparr>cur_object = [(''a'', 1 :: int)], pending = None\<rparr>" "''b''"
      read_pending 1]
    val_optional_absent_key [of "\<lparr>cur_object = [(''a'', 1 :: int)], pending = None\<rparr>" "''a''"
      read_pending 1]
  by (simp add: read_pending_def)

end
